theory Spec2Isabelle
  imports Main
begin

section \<open>Data model of the checker (go/types)\<close>

text \<open>
  The file under verification is \<^verbatim>\<open>go/types/call.go\<close>: the type checking of call
  expressions (\<^verbatim>\<open>call\<close>, \<^verbatim>\<open>argument\<close>) and of selector expressions (\<^verbatim>\<open>selector\<close>).
  The types, objects and operands it works on are declared in other files of the
  package; they are modelled here with the fields that \<^verbatim>\<open>call.go\<close> reads and writes.
\<close>

subsection \<open>Syntax trees\<close>

text \<open>
  \<^verbatim>\<open>ast.Expr\<close>. A call expression has the fields \<^verbatim>\<open>Fun\<close>, \<^verbatim>\<open>Args\<close> and \<^verbatim>\<open>Ellipsis\<close>
  (a \<^verbatim>\<open>token.Pos\<close>, a natural number here); a selector expression has \<^verbatim>\<open>X\<close> and
  \<^verbatim>\<open>Sel\<close> (the name of the selected identifier). Every other form of expression
  is opaque to \<^verbatim>\<open>call.go\<close>.
\<close>

datatype Expr =
    Ident string
  | CallExpr Expr "Expr list" nat
  | SelectorExpr Expr string
  | OtherExpr nat

text \<open>\<^verbatim>\<open>token.NoPos\<close> is the zero position, and \<^verbatim>\<open>Pos.IsValid\<close> is \<^verbatim>\<open>p != NoPos\<close>.\<close>

definition NoPos :: nat where
  "NoPos = 0"

definition IsValid :: "nat \<Rightarrow> bool" where
  "IsValid p \<longleftrightarrow> p \<noteq> NoPos"

subsection \<open>Types\<close>

text \<open>
  Modelled from the spec: the declarations of \<^verbatim>\<open>Type\<close>, \<^verbatim>\<open>Signature\<close>, \<^verbatim>\<open>Tuple\<close> and
  \<^verbatim>\<open>Var\<close> are not in \<^verbatim>\<open>call.go\<close>. A signature has an optional receiver, ordered
  parameter and result variables and the \<^verbatim>\<open>isVariadic\<close> flag; a tuple is an
  ordered sequence of variables (the nil tuple is the empty sequence, and
  \<^verbatim>\<open>Len\<close> is \<^verbatim>\<open>length\<close>); a named type carries its underlying type.
\<close>

datatype Type =
    Basic string
  | Named string Type
  | Pointer Type
  | Slice Type
  | Tuple "Var list"
  | Sig Signature
  | Builtin string
and Signature =
    Signature (recv: "Var option") (params: "Var list") (results: "Var list")
      (isVariadic: bool)
and Var =
    Var (vname: string) (vtyp: Type)

fun Underlying :: "Type \<Rightarrow> Type" where
  "Underlying (Named n u) = u"
| "Underlying t = t"

fun isSlice :: "Type \<Rightarrow> bool" where
  "isSlice (Slice elt) = True"
| "isSlice t = False"

subsection \<open>Objects\<close>

text \<open>Constant values (\<^verbatim>\<open>exact.Value\<close>) are opaque to \<^verbatim>\<open>call.go\<close>.\<close>

datatype Value = IntVal int | StringVal string | BoolVal bool

text \<open>
  Modelled from the spec: the object kinds (\<^verbatim>\<open>Package\<close>, \<^verbatim>\<open>Const\<close>, \<^verbatim>\<open>TypeName\<close>,
  \<^verbatim>\<open>Var\<close>, \<^verbatim>\<open>Func\<close>) are declared outside \<^verbatim>\<open>call.go\<close>. A package object owns a
  scope, kept here as an association list from names to objects;
  \<^verbatim>\<open>Scope.Lookup\<close> is \<^verbatim>\<open>map_of\<close>. The value of a constant may be nil.
\<close>

datatype Object =
    PackageObj string "(string \<times> Object) list"
  | ConstObj string Type "Value option"
  | TypeNameObj string Type
  | VarObj Var
  | FuncObj string Type

fun obj_name :: "Object \<Rightarrow> string" where
  "obj_name (PackageObj n sc) = n"
| "obj_name (ConstObj n t v) = n"
| "obj_name (TypeNameObj n t) = n"
| "obj_name (VarObj v) = vname v"
| "obj_name (FuncObj n t) = n"

text \<open>
  Modelled from the spec: \<^verbatim>\<open>Object.IsExported\<close> is not in \<^verbatim>\<open>call.go\<close>; the spec only
  distinguishes exported from unexported members. As in Go, a name is exported
  when it starts with an upper-case letter (the ASCII letters here).
\<close>

definition IsExported :: "Object \<Rightarrow> bool" where
  "IsExported obj =
     (case obj_name obj of
        [] \<Rightarrow> False
      | ch # rest \<Rightarrow> ch \<in> set ''ABCDEFGHIJKLMNOPQRSTUVWXYZ'')"

text \<open>
  Modelled from the spec: \<^verbatim>\<open>ptrRecv\<close> is not in \<^verbatim>\<open>call.go\<close>; it reports whether the
  receiver of a method is pointer-typed. The method's type must be a signature
  with a receiver: anything else is a run-time panic, \<open>None\<close> here.
\<close>

definition ptrRecv :: "Object \<Rightarrow> bool option" where
  "ptrRecv f =
     (case f of
        FuncObj n (Sig sg) \<Rightarrow>
          (case recv sg of
             None \<Rightarrow> None
           | Some r \<Rightarrow> Some (case vtyp r of Pointer b \<Rightarrow> True | _ \<Rightarrow> False))
      | _ \<Rightarrow> None)"

subsection \<open>Operands\<close>

text \<open>
  The operand modes; \<^verbatim>\<open>constant\<close> and \<^verbatim>\<open>value\<close> are written with a prime, the
  plain words being reserved.
\<close>

datatype mode = invalid | novalue | constant' | variable | typexpr | value'

text \<open>The operand \<^verbatim>\<open>x\<close> that every checking function fills in (field \<^verbatim>\<open>typ\<close> is \<open>typ'\<close>).\<close>

record operand =
  mode :: mode
  expr :: Expr
  typ' :: Type
  val :: "Value option"

subsection \<open>Checker state and diagnostics\<close>

text \<open>
  Each diagnostic of \<^verbatim>\<open>call.go\<close> is a format string with arguments, reported
  through \<^verbatim>\<open>check.errorf\<close> or \<^verbatim>\<open>check.invalidOp\<close>. The kind names the format
  string:
  \<^item> \<open>NotCallable\<close>: "cannot call non-function %s"
  \<^item> \<open>SpreadOnNonVariadic\<close>: "cannot use ... in call to non-variadic %s"
  \<^item> \<open>TooFewArguments\<close>: "too few arguments in call to %s"
  \<^item> \<open>TooManyArguments\<close>: "too many arguments"
  \<^item> \<open>SpreadPositionMismatch\<close>: "can only use ... with matching parameter"
  \<^item> \<open>SpreadTypeMismatch\<close>: "cannot use %s as parameter of type %s"
  \<^item> \<open>ArgumentTypeMismatch\<close>: "cannot pass argument %s to parameter of type %s"
  \<^item> \<open>UndeclaredPackageMember\<close>: "%s not declared by package %s"
  \<^item> \<open>UnexportedPackageMember\<close>: "%s not exported by package %s"
  \<^item> \<open>AmbiguousSelector\<close>: "ambiguous selector %s"
  \<^item> \<open>NoSuchMember\<close>: "%s has no field or method %s"
  \<^item> \<open>NoSuchMethod\<close>: "%s has no method %s"
  \<^item> \<open>NotInMethodSet\<close>: "%s is not in method set of %s"

  Source positions are left out of the model.
\<close>

datatype kind =
    NotCallable
  | SpreadOnNonVariadic
  | TooFewArguments
  | TooManyArguments
  | SpreadPositionMismatch
  | SpreadTypeMismatch
  | ArgumentTypeMismatch
  | UndeclaredPackageMember
  | UnexportedPackageMember
  | AmbiguousSelector
  | NoSuchMember
  | NoSuchMethod
  | NotInMethodSet

datatype fmtarg = AStr string | AExpr Expr | AOperand operand | AType Type

datatype error = Error kind "fmtarg list"

text \<open>
  What \<^verbatim>\<open>check.recordObject\<close> stores for an identifier: an object, or the result
  of \<^verbatim>\<open>lookupResult(typ, obj, index, indirect)\<close>.
\<close>

datatype Recorded =
    Plain Object
  | LookupResult Type Object "nat list option" bool

record checker =
  errors :: "error list"
  objects :: "(string \<times> Recorded) list"

definition errorf :: "kind \<Rightarrow> fmtarg list \<Rightarrow> checker \<Rightarrow> checker" where
  "errorf k as c = c\<lparr>errors := errors c @ [Error k as]\<rparr>"

definition invalidOp :: "kind \<Rightarrow> fmtarg list \<Rightarrow> checker \<Rightarrow> checker" where
  "invalidOp k as c = errorf k as c"

definition recordObject :: "string \<Rightarrow> Recorded \<Rightarrow> checker \<Rightarrow> checker" where
  "recordObject ident obj c = c\<lparr>objects := objects c @ [(ident, obj)]\<rparr>"

subsection \<open>Collaborators\<close>

text \<open>
  The functions of the checker that \<^verbatim>\<open>call.go\<close> calls and that live in other files.
  Each takes the operand and the checker state as they are at the call and
  returns them as it leaves them.
  \<^item> \<open>check_exprOrType\<close>, \<open>check_expr\<close>: \<^verbatim>\<open>check.exprOrType(x, e)\<close>, \<^verbatim>\<open>check.expr(x, e)\<close>;
  \<^item> \<open>check_conversion\<close>: \<^verbatim>\<open>check.conversion(x, e, typ)\<close>;
  \<^item> \<open>check_builtin\<close>: \<^verbatim>\<open>check.builtin(x, e, bin)\<close>;
  \<^item> \<open>check_assignment\<close>: \<^verbatim>\<open>check.assignment(x, typ)\<close>, with its boolean result;
  \<^item> \<open>LookupParent\<close>: \<^verbatim>\<open>check.topScope.LookupParent(name)\<close>, \<open>None\<close> for nil;
  \<^item> \<open>LookupFieldOrMethod\<close>: \<^verbatim>\<open>LookupFieldOrMethod(typ, check.pkg, name)\<close>, with
    results \<^verbatim>\<open>obj\<close> (\<open>None\<close> for nil), \<^verbatim>\<open>index\<close> (\<open>None\<close> for nil) and \<^verbatim>\<open>indirect\<close>.
\<close>

record env =
  check_exprOrType :: "operand \<Rightarrow> Expr \<Rightarrow> checker \<Rightarrow> operand \<times> checker"
  check_expr :: "operand \<Rightarrow> Expr \<Rightarrow> checker \<Rightarrow> operand \<times> checker"
  check_conversion :: "operand \<Rightarrow> Expr \<Rightarrow> Type \<Rightarrow> checker \<Rightarrow> operand \<times> checker"
  check_builtin :: "operand \<Rightarrow> Expr \<Rightarrow> string \<Rightarrow> checker \<Rightarrow> operand \<times> checker"
  check_assignment :: "operand \<Rightarrow> Type \<Rightarrow> checker \<Rightarrow> bool \<times> operand \<times> checker"
  LookupParent :: "string \<Rightarrow> Object option"
  LookupFieldOrMethod :: "Type \<Rightarrow> string \<Rightarrow> Object option \<times> nat list option \<times> bool"

section \<open>The argument matcher: \<^verbatim>\<open>checker.argument\<close>\<close>

text \<open>
  \<^verbatim>\<open>argument(sig, i, x, passSlice)\<close>, lines 118 to 156. A result \<open>None\<close> is a
  run-time panic: the index \<^verbatim>\<open>n-1\<close> out of range when a variadic signature has no
  parameter, and the failed type assertion of line 150. The early returns of
  the source are the \<open>Inl\<close> branches. The constant \<^verbatim>\<open>debug\<close> is false, so the dump
  of line 130 is not part of the model.
\<close>

definition argument ::
  "env \<Rightarrow> Signature \<Rightarrow> nat \<Rightarrow> operand \<Rightarrow> bool \<Rightarrow> checker \<Rightarrow> (operand \<times> checker) option"
where
  "argument env sig i x passSlice c =
     (let n = length (params sig) in
      case (if i < n then Inr (vtyp (params sig ! i))
            else if isVariadic sig then
              (if n = 0 then Inl None else Inr (vtyp (params sig ! (n - 1))))
            else Inl (Some (x, errorf TooManyArguments [] c)))
      of
        Inl r \<Rightarrow> r
      | Inr typ \<Rightarrow>
          (case (if passSlice then
                   (if i \<noteq> n - 1 then
                      Inl (Some (x, errorf SpreadPositionMismatch [] c))
                    else if \<not> isSlice (typ' x) then
                      Inl (Some (x, errorf SpreadTypeMismatch [AOperand x, AType typ] c))
                    else Inr typ)
                 else if isVariadic sig \<and> i \<ge> n - 1 then
                   (case typ of Slice elt \<Rightarrow> Inr elt | _ \<Rightarrow> Inl None)
                 else Inr typ)
           of
             Inl r \<Rightarrow> r
           | Inr typ \<Rightarrow>
               (case check_assignment env x typ c of
                  (ok, x, c) \<Rightarrow>
                    if \<not> ok \<and> mode x \<noteq> invalid then
                      Some (x, errorf ArgumentTypeMismatch [AOperand x, AType typ] c)
                    else Some (x, c))))"

section \<open>The call checker: \<^verbatim>\<open>checker.call\<close>\<close>

text \<open>
  The loop of lines 20 to 22: the callee is invalid, and every argument is
  still evaluated, one after the other, into the same operand.
\<close>

fun call_invalid_args :: "env \<Rightarrow> Expr list \<Rightarrow> operand \<Rightarrow> checker \<Rightarrow> operand \<times> checker" where
  "call_invalid_args env [] x c = (x, c)"
| "call_invalid_args env (arg # args) x c =
     (case check_expr env x arg c of (x, c) \<Rightarrow> call_invalid_args env args x c)"

text \<open>
  The loop of lines 57 to 62 over the components of a tuple \<^verbatim>\<open>t\<close>, with \<^verbatim>\<open>n = t.Len()\<close>;
  the list holds the components from index \<open>i\<close> on. Only \<^verbatim>\<open>mode\<close>, \<^verbatim>\<open>expr\<close> and
  \<^verbatim>\<open>typ\<close> of the operand are set before each call of \<^verbatim>\<open>argument\<close>.
\<close>

fun call_tuple_args ::
  "env \<Rightarrow> Signature \<Rightarrow> Expr \<Rightarrow> nat \<Rightarrow> bool \<Rightarrow> nat \<Rightarrow> Var list \<Rightarrow> operand \<Rightarrow> checker
     \<Rightarrow> (operand \<times> checker) option"
where
  "call_tuple_args env sig arg n passSlice i [] x c = Some (x, c)"
| "call_tuple_args env sig arg n passSlice i (v # vs) x c =
     (case argument env sig i (x\<lparr>mode := value', expr := arg, typ' := vtyp v\<rparr>)
             (passSlice \<and> i = n - 1) c
      of
        None \<Rightarrow> None
      | Some (x, c) \<Rightarrow> call_tuple_args env sig arg n passSlice (Suc i) vs x c)"

text \<open>
  The loop of lines 72 to 77 over \<^verbatim>\<open>e.Args\<close>, with \<^verbatim>\<open>n = len(e.Args)\<close>; the list holds
  the arguments from index \<open>i\<close> on.
\<close>

fun call_range_args ::
  "env \<Rightarrow> Signature \<Rightarrow> nat \<Rightarrow> bool \<Rightarrow> nat \<Rightarrow> Expr list \<Rightarrow> operand \<Rightarrow> checker
     \<Rightarrow> (operand \<times> checker) option"
where
  "call_range_args env sig n passSlice i [] x c = Some (x, c)"
| "call_range_args env sig n passSlice i (arg # args) x c =
     (case check_expr env x arg c of
        (x, c) \<Rightarrow>
          if mode x \<noteq> invalid then
            (case argument env sig i x (passSlice \<and> i = n - 1) c of
               None \<Rightarrow> None
             | Some (x, c) \<Rightarrow> call_range_args env sig n passSlice (Suc i) args x c)
          else call_range_args env sig n passSlice (Suc i) args x c)"

text \<open>
  Lines 47 to 78, "evaluate arguments": the result is the argument count \<^verbatim>\<open>n\<close> as
  it stands at line 80, with the operand and the checker state.
\<close>

definition call_arguments ::
  "env \<Rightarrow> Signature \<Rightarrow> Expr list \<Rightarrow> bool \<Rightarrow> operand \<Rightarrow> checker
     \<Rightarrow> (nat \<times> operand \<times> checker) option"
where
  "call_arguments env sig Args passSlice x c =
     (let n = length Args in
      if n = 1 then
        (let arg = Args ! 0 in
         case check_expr env x arg c of
           (x, c) \<Rightarrow>
             if mode x \<noteq> invalid then
               (case typ' x of
                  Tuple t \<Rightarrow>
                    (case call_tuple_args env sig arg (length t) passSlice 0 t x c of
                       None \<Rightarrow> None
                     | Some (x, c) \<Rightarrow> Some (length t, x, c))
                | _ \<Rightarrow>
                    (case argument env sig 0 x passSlice c of
                       None \<Rightarrow> None
                     | Some (x, c) \<Rightarrow> Some (n, x, c)))
             else Some (length (params sig), x, c))
      else
        (case call_range_args env sig n passSlice 0 Args x c of
           None \<Rightarrow> None
         | Some (x, c) \<Rightarrow> Some (n, x, c)))"

text \<open>
  Lines 34 to 103, the function or method call: the callee operand \<open>x\<close> has the
  signature \<open>sig\<close> as its underlying type; \<open>e\<close> is the call expression
  \<open>CallExpr Fun Args Ellipsis\<close>.
\<close>

definition call_signature ::
  "env \<Rightarrow> Signature \<Rightarrow> Expr \<Rightarrow> Expr list \<Rightarrow> nat \<Rightarrow> operand \<Rightarrow> checker
     \<Rightarrow> (operand \<times> checker) option"
where
  "call_signature env sig Fun Args Ellipsis x c =
     (let e = CallExpr Fun Args Ellipsis;
          passSlice = (IsValid Ellipsis \<and> isVariadic sig);
          c = (if IsValid Ellipsis \<and> \<not> isVariadic sig
               then errorf SpreadOnNonVariadic [AExpr Fun] c else c)
      in
      case call_arguments env sig Args passSlice x c of
        None \<Rightarrow> None
      | Some (n, x, c) \<Rightarrow>
          (let n = (if isVariadic sig then n + 1 else n);
               c = (if n < length (params sig)
                    then errorf TooFewArguments [AExpr Fun] c else c);
               x = (case length (results sig) of
                      0 \<Rightarrow> x\<lparr>mode := novalue\<rparr>
                    | Suc 0 \<Rightarrow> x\<lparr>mode := value', typ' := vtyp (results sig ! 0)\<rparr>
                    | Suc (Suc k) \<Rightarrow> x\<lparr>mode := value', typ' := Tuple (results sig)\<rparr>)
           in Some (x\<lparr>expr := e\<rparr>, c)))"

text \<open>\<^verbatim>\<open>call(x, e)\<close>, lines 14 to 114, for \<open>e = CallExpr Fun Args Ellipsis\<close>.\<close>

definition call ::
  "env \<Rightarrow> operand \<Rightarrow> Expr \<Rightarrow> Expr list \<Rightarrow> nat \<Rightarrow> checker \<Rightarrow> (operand \<times> checker) option"
where
  "call env x Fun Args Ellipsis c =
     (let e = CallExpr Fun Args Ellipsis in
      case check_exprOrType env x Fun c of
        (x, c) \<Rightarrow>
          if mode x = invalid then
            (case call_invalid_args env Args x c of
               (x, c) \<Rightarrow> Some (x\<lparr>mode := invalid, expr := e\<rparr>, c))
          else if mode x = typexpr then
            Some (check_conversion env x e (typ' x) c)
          else
            (case Underlying (typ' x) of
               Sig sig \<Rightarrow> call_signature env sig Fun Args Ellipsis x c
             | _ \<Rightarrow>
                 (case typ' x of
                    Builtin bin \<Rightarrow> Some (check_builtin env x e bin c)
                  | _ \<Rightarrow>
                      Some (x\<lparr>mode := invalid, expr := e\<rparr>,
                            invalidOp NotCallable [AOperand x] c))))"

section \<open>The selector resolver: \<^verbatim>\<open>checker.selector\<close>\<close>

text \<open>
  \<^verbatim>\<open>selector(x, e)\<close>, lines 158 to 320, for \<open>e = SelectorExpr X sel\<close>. The label
  \<^verbatim>\<open>Error\<close> is \<open>selector_Error\<close>. A result \<open>None\<close> is a run-time panic:
  \<^verbatim>\<open>unreachable()\<close>, a panic of \<^verbatim>\<open>ptrRecv\<close> and the failed type assertion of line
  248. The assertion of line 191 compares the method value \<^verbatim>\<open>exp.Val\<close> with nil and
  never fails: a constant whose value is nil gives mode \<^verbatim>\<open>constant\<close> with that nil
  value. The constant \<^verbatim>\<open>debug\<close> is false, so lines 279 to 303 are not part of the
  model.
\<close>

definition selector_Error :: "Expr \<Rightarrow> operand \<Rightarrow> checker \<Rightarrow> (operand \<times> checker) option" where
  "selector_Error e x c = Some (x\<lparr>mode := invalid, expr := e\<rparr>, c)"

text \<open>
  Lines 171 and 172: the base is an identifier that the top scope binds to a
  package.
\<close>

definition selector_package :: "env \<Rightarrow> Expr \<Rightarrow> (string \<times> Object \<times> (string \<times> Object) list) option" where
  "selector_package env X =
     (case X of
        Ident ident \<Rightarrow>
          (case LookupParent env ident of
             Some (PackageObj pname scope) \<Rightarrow> Some (ident, PackageObj pname scope, scope)
           | _ \<Rightarrow> None)
      | _ \<Rightarrow> None)"

definition selector ::
  "env \<Rightarrow> operand \<Rightarrow> Expr \<Rightarrow> string \<Rightarrow> checker \<Rightarrow> (operand \<times> checker) option"
where
  "selector env x X sel c =
     (let e = SelectorExpr X sel in
      case selector_package env X of
        Some (ident, pkg, scope) \<Rightarrow>
          (let c = recordObject ident (Plain pkg) c in
           case map_of scope sel of
             None \<Rightarrow>
               selector_Error e x (errorf UndeclaredPackageMember [AStr sel, AStr ident] c)
           | Some exp \<Rightarrow>
               if \<not> IsExported exp then
                 selector_Error e x (errorf UnexportedPackageMember [AStr sel, AStr ident] c)
               else
                 (let c = recordObject sel (Plain exp) c in
                  case exp of
                    ConstObj cn t v \<Rightarrow>
                      Some (x\<lparr>mode := constant', expr := e, typ' := t, val := v\<rparr>, c)
                  | TypeNameObj tn t \<Rightarrow> Some (x\<lparr>mode := typexpr, expr := e, typ' := t\<rparr>, c)
                  | VarObj v \<Rightarrow> Some (x\<lparr>mode := variable, expr := e, typ' := vtyp v\<rparr>, c)
                  | FuncObj fn t \<Rightarrow> Some (x\<lparr>mode := value', expr := e, typ' := t\<rparr>, c)
                  | PackageObj pn sc \<Rightarrow> None))
      | None \<Rightarrow>
          (case check_exprOrType env x X c of
             (x, c) \<Rightarrow>
               if mode x = invalid then selector_Error e x c
               else
                 (case LookupFieldOrMethod env (typ' x) sel of
                    (None, index, indirect) \<Rightarrow>
                      if index \<noteq> None then
                        selector_Error e x (invalidOp AmbiguousSelector [AStr sel] c)
                      else
                        selector_Error e x (invalidOp NoSuchMember [AOperand x, AStr sel] c)
                  | (Some obj, index, indirect) \<Rightarrow>
                      (let c = recordObject sel (LookupResult (typ' x) obj index indirect) c in
                       if mode x = typexpr then
                         (case obj of
                            FuncObj mn mt \<Rightarrow>
                              (case (if \<not> indirect then ptrRecv obj else Some False) of
                                 None \<Rightarrow> None
                               | Some True \<Rightarrow>
                                   selector_Error e x
                                     (invalidOp NotInMethodSet [AStr sel, AType (typ' x)] c)
                               | Some False \<Rightarrow>
                                   (case mt of
                                      Sig sig \<Rightarrow>
                                        Some (x\<lparr>mode := value', expr := e,
                                                typ' := Sig (Signature None
                                                  (Var [] (typ' x) # params sig)
                                                  (results sig) (isVariadic sig))\<rparr>, c)
                                    | _ \<Rightarrow> None))
                          | _ \<Rightarrow>
                              selector_Error e x
                                (invalidOp NoSuchMethod [AOperand x, AStr sel] c))
                       else
                         (case obj of
                            VarObj v \<Rightarrow>
                              Some (x\<lparr>mode := variable, expr := e, typ' := vtyp v\<rparr>, c)
                          | FuncObj fn ft \<Rightarrow>
                              (case (if \<not> indirect \<and> mode x \<noteq> variable
                                     then ptrRecv obj else Some False) of
                                 None \<Rightarrow> None
                               | Some True \<Rightarrow>
                                   selector_Error e x
                                     (invalidOp NotInMethodSet [AStr sel, AOperand x] c)
                               | Some False \<Rightarrow>
                                   Some (x\<lparr>mode := value', expr := e, typ' := ft\<rparr>, c))
                          | _ \<Rightarrow> None)))))"

section \<open>Well-formed signatures and the spec's descriptions\<close>

text \<open>
  The invariant of the data model: the last parameter of a variadic signature
  exists and has a slice type.
\<close>

definition wf_sig :: "Signature \<Rightarrow> bool" where
  "wf_sig sig \<longleftrightarrow>
     (isVariadic sig \<longrightarrow> params sig \<noteq> [] \<and> isSlice (vtyp (last (params sig))))"

text \<open>
  The spec's step 4 of the argument matcher, in its words: attempt assignability
  of the operand to the expected type; a failure that leaves the operand valid
  reports \<open>ArgumentTypeMismatch\<close>, a failure on an invalid operand reports nothing.
\<close>

definition spec_assign :: "env \<Rightarrow> operand \<Rightarrow> Type \<Rightarrow> checker \<Rightarrow> operand \<times> checker" where
  "spec_assign env x expected c =
     (let r = check_assignment env x expected c;
          ok = fst r; x1 = fst (snd r); c1 = snd (snd r)
      in (x1, if ok \<or> mode x1 = invalid then c1
              else errorf ArgumentTypeMismatch [AOperand x1, AType expected] c1))"

text \<open>
  The spec's treatment of a single argument of tuple type, in its words: each
  component, in order, is a separate positional argument (a value of the
  component's type at the component's index), and the trailing spread applies to
  the last component only. A panic of the argument matcher ends the checking.
\<close>

definition spec_unpack_step ::
  "env \<Rightarrow> Signature \<Rightarrow> Expr \<Rightarrow> nat \<Rightarrow> bool \<Rightarrow> nat \<times> Var
     \<Rightarrow> (operand \<times> checker) option \<Rightarrow> (operand \<times> checker) option"
where
  "spec_unpack_step env sig arg last_index hasSpread iv r =
     (case r of
        None \<Rightarrow> None
      | Some (x, c) \<Rightarrow>
          argument env sig (fst iv) (x\<lparr>mode := value', expr := arg, typ' := vtyp (snd iv)\<rparr>)
            (hasSpread \<and> fst iv = last_index) c)"

definition spec_unpack ::
  "env \<Rightarrow> Signature \<Rightarrow> Expr \<Rightarrow> Var list \<Rightarrow> bool \<Rightarrow> operand \<Rightarrow> checker
     \<Rightarrow> (operand \<times> checker) option"
where
  "spec_unpack env sig arg t hasSpread x c =
     fold (spec_unpack_step env sig arg (length t - 1) hasSpread) (enumerate 0 t) (Some (x, c))"

text \<open>
  The spec's number of positional arguments considered: the number of argument
  expressions, except for a single argument, which counts as the length of its
  tuple type, as the parameter count when its evaluation failed, and as one
  otherwise.
\<close>

definition spec_count :: "env \<Rightarrow> Signature \<Rightarrow> Expr list \<Rightarrow> operand \<Rightarrow> checker \<Rightarrow> nat" where
  "spec_count env sig Args x c =
     (case Args of
        [arg] \<Rightarrow>
          (let x1 = fst (check_expr env x arg c) in
           if mode x1 = invalid then length (params sig)
           else (case typ' x1 of Tuple t \<Rightarrow> length t | _ \<Rightarrow> 1))
      | _ \<Rightarrow> length Args)"

text \<open>
  The spec's arity check on the count \<open>n\<close> of positional arguments considered, and
  the spec's result operand of a call \<open>e\<close>.
\<close>

definition spec_arity :: "Signature \<Rightarrow> Expr \<Rightarrow> nat \<Rightarrow> checker \<Rightarrow> checker" where
  "spec_arity sig Fun n c =
     (if (if isVariadic sig then n + 1 else n) < length (params sig)
      then errorf TooFewArguments [AExpr Fun] c else c)"

definition spec_result :: "Signature \<Rightarrow> Expr \<Rightarrow> operand \<Rightarrow> operand" where
  "spec_result sig e x =
     (case results sig of
        [] \<Rightarrow> x\<lparr>mode := novalue, expr := e\<rparr>
      | [r] \<Rightarrow> x\<lparr>mode := value', expr := e, typ' := vtyp r\<rparr>
      | r # r2 # rs \<Rightarrow> x\<lparr>mode := value', expr := e, typ' := Tuple (results sig)\<rparr>)"

text \<open>The state in which the arguments of a call are evaluated (lines 36 to 45).\<close>

definition spread_checked :: "Signature \<Rightarrow> Expr \<Rightarrow> nat \<Rightarrow> checker \<Rightarrow> checker" where
  "spread_checked sig Fun Ellipsis c =
     (if IsValid Ellipsis \<and> \<not> isVariadic sig
      then errorf SpreadOnNonVariadic [AExpr Fun] c else c)"

text \<open>
  The spec's checking of the arguments of a call in which no spread is in effect
  and whose signature is not variadic. One argument at a position: within the
  parameter count it is assigned to the declared type of the parameter, at or
  beyond it \<open>TooManyArguments\<close> is reported and nothing else is done.
\<close>

definition spec_plain_argument ::
  "env \<Rightarrow> Signature \<Rightarrow> nat \<Rightarrow> operand \<Rightarrow> checker \<Rightarrow> operand \<times> checker"
where
  "spec_plain_argument env sig i x c =
     (if i < length (params sig) then spec_assign env x (vtyp (params sig ! i)) c
      else (x, errorf TooManyArguments [] c))"

text \<open>
  One argument expression at a position: it is evaluated, and checked against
  its position when the evaluation succeeded.
\<close>

definition spec_plain_expr_step ::
  "env \<Rightarrow> Signature \<Rightarrow> nat \<times> Expr \<Rightarrow> operand \<times> checker \<Rightarrow> operand \<times> checker"
where
  "spec_plain_expr_step env sig ia xc =
     (let r = check_expr env (fst xc) (snd ia) (snd xc) in
      if mode (fst r) = invalid then r
      else spec_plain_argument env sig (fst ia) (fst r) (snd r))"

text \<open>One component of a tuple-valued argument \<open>arg\<close> at its index.\<close>

definition spec_plain_component_step ::
  "env \<Rightarrow> Signature \<Rightarrow> Expr \<Rightarrow> nat \<times> Var \<Rightarrow> operand \<times> checker \<Rightarrow> operand \<times> checker"
where
  "spec_plain_component_step env sig arg iv xc =
     spec_plain_argument env sig (fst iv)
       ((fst xc)\<lparr>mode := value', expr := arg, typ' := vtyp (snd iv)\<rparr>) (snd xc)"

text \<open>
  All the arguments of such a call, as the spec's section 4.1 lists them: a
  single argument expression is evaluated once, and then skipped when the
  evaluation failed (the count is the parameter count), unpacked in order when
  its type is a tuple (the count is the length of the tuple), and checked
  against position 0 otherwise; zero or several argument expressions are
  evaluated and checked left to right. The result is the count of positional
  arguments with the operand and the checker state.
\<close>

definition spec_plain_arguments ::
  "env \<Rightarrow> Signature \<Rightarrow> Expr list \<Rightarrow> operand \<Rightarrow> checker \<Rightarrow> nat \<times> operand \<times> checker"
where
  "spec_plain_arguments env sig Args x c =
     (case Args of
        [arg] \<Rightarrow>
          (let r = check_expr env x arg c in
           if mode (fst r) = invalid then (length (params sig), r)
           else
             (case typ' (fst r) of
                Tuple t \<Rightarrow>
                  (length t, fold (spec_plain_component_step env sig arg) (enumerate 0 t) r)
              | _ \<Rightarrow> (1, spec_plain_argument env sig 0 (fst r) (snd r))))
      | _ \<Rightarrow> (length Args, fold (spec_plain_expr_step env sig) (enumerate 0 Args) (x, c)))"

section \<open>A small program to run the checker on\<close>

text \<open>
  The types \<^verbatim>\<open>int\<close>, \<^verbatim>\<open>string\<close>, \<^verbatim>\<open>[]string\<close>, a named struct type \<^verbatim>\<open>T\<close> with a field
  \<^verbatim>\<open>X int\<close> and a method \<^verbatim>\<open>M\<close> with receiver \<^verbatim>\<open>*T\<close>, and the functions
  \<^verbatim>\<open>f(a int, b string)\<close>, \<^verbatim>\<open>h(a int) int\<close>, \<^verbatim>\<open>v(a int, b ...string) (int, string)\<close> and
  \<^verbatim>\<open>g() (int, string)\<close>.
\<close>

definition ex_int :: Type where
  "ex_int = Basic ''int''"

definition ex_string :: Type where
  "ex_string = Basic ''string''"

definition ex_T :: Type where
  "ex_T = Named ''T'' (Basic ''struct'')"

definition ex_M :: Object where
  "ex_M = FuncObj ''M'' (Sig (Signature (Some (Var ''r'' (Pointer ex_T))) [Var ''a'' ex_int] [] False))"

definition ex_f :: Signature where
  "ex_f = Signature None [Var ''a'' ex_int, Var ''b'' ex_string] [] False"

definition ex_h :: Signature where
  "ex_h = Signature None [Var ''a'' ex_int] [Var [] ex_int] False"

definition ex_v :: Signature where
  "ex_v = Signature None [Var ''a'' ex_int, Var ''b'' (Slice ex_string)]
            [Var [] ex_int, Var [] ex_string] True"

definition ex_g :: Signature where
  "ex_g = Signature None [] [Var [] ex_int, Var [] ex_string] False"

text \<open>
  What each expression of the program evaluates to: its mode and type. The
  identifier \<^verbatim>\<open>bad\<close> is undeclared, \<^verbatim>\<open>tv()\<close> is a call returning a \<^verbatim>\<open>T\<close> (a value that
  is not addressable), \<^verbatim>\<open>t\<close> a variable of type \<^verbatim>\<open>T\<close>, \<^verbatim>\<open>p\<close> one of type \<^verbatim>\<open>*T\<close>, and
  \<open>OtherExpr 1\<close> the type expression for the pointer to \<^verbatim>\<open>T\<close>.
\<close>

definition ex_eval :: "Expr \<Rightarrow> mode \<times> Type" where
  "ex_eval e =
     (if e = Ident ''f'' then (value', Sig ex_f)
      else if e = Ident ''h'' then (value', Sig ex_h)
      else if e = Ident ''v'' then (value', Sig ex_v)
      else if e = Ident ''g'' then (value', Sig ex_g)
      else if e = CallExpr (Ident ''g'') [] 0 then (value', Tuple (results ex_g))
      else if e = CallExpr (Ident ''tv'') [] 0 then (value', ex_T)
      else if e = Ident ''one'' then (constant', ex_int)
      else if e = Ident ''s'' then (variable, ex_string)
      else if e = Ident ''ss'' then (variable, Slice ex_string)
      else if e = Ident ''T'' then (typexpr, ex_T)
      else if e = OtherExpr 1 then (typexpr, Pointer ex_T)
      else if e = Ident ''t'' then (variable, ex_T)
      else if e = Ident ''p'' then (variable, Pointer ex_T)
      else (invalid, Basic ''invalid''))"

text \<open>
  Member lookup on \<^verbatim>\<open>T\<close> and \<^verbatim>\<open>*T\<close>: the field \<^verbatim>\<open>X\<close> and the method \<^verbatim>\<open>M\<close>, reached
  through an indirection from \<^verbatim>\<open>*T\<close> only.
\<close>

definition ex_lookup :: "Type \<Rightarrow> string \<Rightarrow> Object option \<times> nat list option \<times> bool" where
  "ex_lookup t sel =
     (if (t = ex_T \<or> t = Pointer ex_T) \<and> sel = ''M'' then
        (Some ex_M, Some [0], t = Pointer ex_T)
      else if (t = ex_T \<or> t = Pointer ex_T) \<and> sel = ''X'' then
        (Some (VarObj (Var ''X'' ex_int)), Some [0], t = Pointer ex_T)
      else (None, None, False))"

text \<open>The imported package \<^verbatim>\<open>fmt\<close>, with an exported and an unexported member.\<close>

definition ex_fmt :: Object where
  "ex_fmt = PackageObj ''fmt''
     [(''Println'', FuncObj ''Println'' (Sig ex_h)), (''hidden'', TypeNameObj ''hidden'' ex_T)]"

definition ex_env :: env where
  "ex_env =
     \<lparr>check_exprOrType = (\<lambda>x e c. (x\<lparr>mode := fst (ex_eval e), expr := e, typ' := snd (ex_eval e)\<rparr>, c)),
      check_expr = (\<lambda>x e c. (x\<lparr>mode := fst (ex_eval e), expr := e, typ' := snd (ex_eval e)\<rparr>, c)),
      check_conversion = (\<lambda>x e t c. (x\<lparr>mode := value', expr := e, typ' := t\<rparr>, c)),
      check_builtin = (\<lambda>x e b c. (x\<lparr>mode := novalue, expr := e\<rparr>, c)),
      check_assignment = (\<lambda>x t c. (typ' x = t, x, c)),
      LookupParent = (\<lambda>n. if n = ''fmt'' then Some ex_fmt else None),
      LookupFieldOrMethod = ex_lookup\<rparr>"

definition ex_x :: operand where
  "ex_x = \<lparr>mode = invalid, expr = OtherExpr 0, typ' = Basic ''invalid'', val = None\<rparr>"

definition ex_c :: checker where
  "ex_c = \<lparr>errors = [], objects = []\<rparr>"

section \<open>The checker returns on well-formed signatures\<close>

text \<open>
  The argument matcher panics on a variadic signature without parameters or
  whose last parameter is no slice, and nowhere else.
\<close>

lemma argument_total:
  assumes "wf_sig sig"
  shows "\<exists>x' c'. argument env sig i x passSlice c = Some (x', c')"
proof (cases "isVariadic sig")
  case False
  then show ?thesis
    by (simp add: argument_def Let_def split: prod.splits)
next
  case True
  with assms have ne: "params sig \<noteq> []" and sl: "isSlice (vtyp (last (params sig)))"
    by (simp_all add: wf_sig_def)
  from sl obtain elt where elt: "vtyp (last (params sig)) = Slice elt"
    by (cases "vtyp (last (params sig))") simp_all
  have lastn: "params sig ! (length (params sig) - 1) = last (params sig)"
    using ne by (simp add: last_conv_nth)
  show ?thesis
  proof (cases "i < length (params sig)")
    case lt: True
    show ?thesis
    proof (cases "i = length (params sig) - 1")
      case True
      then show ?thesis using lt \<open>isVariadic sig\<close> elt lastn
        by (simp add: argument_def Let_def split: prod.splits)
    next
      case False
      then have "\<not> length (params sig) - 1 \<le> i" using lt by arith
      then show ?thesis using lt \<open>isVariadic sig\<close> False
        by (simp add: argument_def Let_def split: prod.splits)
    qed
  next
    case ge: False
    then have "length (params sig) - 1 \<le> i" by arith
    then show ?thesis using ge \<open>isVariadic sig\<close> elt lastn ne
      by (simp add: argument_def Let_def split: prod.splits)
  qed
qed

lemma call_tuple_args_total:
  assumes "wf_sig sig"
  shows "\<exists>x' c'. call_tuple_args env sig arg n passSlice i vs x c = Some (x', c')"
proof (induction vs arbitrary: i x c)
  case Nil
  show ?case by simp
next
  case (Cons v vs)
  obtain x1 c1 where
    "argument env sig i (x\<lparr>mode := value', expr := arg, typ' := vtyp v\<rparr>)
       (passSlice \<and> i = n - 1) c = Some (x1, c1)"
    using argument_total [OF assms] by blast
  then show ?case using Cons.IH [of "Suc i" x1 c1] by simp
qed

lemma call_range_args_total:
  assumes "wf_sig sig"
  shows "\<exists>x' c'. call_range_args env sig n passSlice i args x c = Some (x', c')"
proof (induction args arbitrary: i x c)
  case Nil
  show ?case by simp
next
  case (Cons arg args)
  obtain x1 c1 where ev: "check_expr env x arg c = (x1, c1)"
    by (cases "check_expr env x arg c")
  show ?case
  proof (cases "mode x1 = invalid")
    case True
    then show ?thesis using ev Cons.IH [of "Suc i" x1 c1] by simp
  next
    case False
    obtain x2 c2 where "argument env sig i x1 (passSlice \<and> i = n - 1) c1 = Some (x2, c2)"
      using argument_total [OF assms] by blast
    then show ?thesis using ev False Cons.IH [of "Suc i" x2 c2] by simp
  qed
qed

lemma call_arguments_count:
  assumes "call_arguments env sig Args passSlice x c = Some (n, x1, c1)"
  shows "n = spec_count env sig Args x c"
proof (cases "length Args = 1")
  case True
  then obtain arg where Args: "Args = [arg]"
    by (cases Args) simp_all
  show ?thesis using assms unfolding Args
    by (auto simp: call_arguments_def spec_count_def Let_def
             split: prod.splits if_splits Type.splits option.splits)
next
  case False
  then have "spec_count env sig Args x c = length Args"
    by (cases Args) (simp_all add: spec_count_def split: list.splits)
  then show ?thesis using assms False
    by (auto simp: call_arguments_def Let_def split: option.splits)
qed

lemma call_arguments_total:
  assumes "wf_sig sig"
  shows "\<exists>n x' c'. call_arguments env sig Args passSlice x c = Some (n, x', c')"
proof (cases "length Args = 1")
  case False
  obtain x1 c1 where "call_range_args env sig (length Args) passSlice 0 Args x c = Some (x1, c1)"
    using call_range_args_total [OF assms] by blast
  then show ?thesis using False by (simp add: call_arguments_def Let_def)
next
  case True
  obtain x1 c1 where ev: "check_expr env x (Args ! 0) c = (x1, c1)"
    by (cases "check_expr env x (Args ! 0) c")
  show ?thesis
  proof (cases "mode x1 = invalid")
    case True
    then show ?thesis using ev \<open>length Args = 1\<close> by (simp add: call_arguments_def Let_def)
  next
    case valid: False
    obtain x2 c2 where a: "argument env sig 0 x1 passSlice c1 = Some (x2, c2)"
      using argument_total [OF assms] by blast
    show ?thesis
    proof (cases "typ' x1")
      case (Tuple t)
      obtain x3 c3 where
        "call_tuple_args env sig (Args ! 0) (length t) passSlice 0 t x1 c1 = Some (x3, c3)"
        using call_tuple_args_total [OF assms] by blast
      then show ?thesis using ev valid Tuple \<open>length Args = 1\<close>
        by (simp add: call_arguments_def Let_def)
    qed (use ev valid a \<open>length Args = 1\<close> in \<open>simp_all add: call_arguments_def Let_def\<close>)
  qed
qed

lemma call_signature_phases:
  "call_signature env sig Fun Args Ellipsis x c =
     (case call_arguments env sig Args (IsValid Ellipsis \<and> isVariadic sig) x
             (spread_checked sig Fun Ellipsis c)
      of
        None \<Rightarrow> None
      | Some (n, x1, c1) \<Rightarrow>
          Some (spec_result sig (CallExpr Fun Args Ellipsis) x1, spec_arity sig Fun n c1))"
proof -
  have res: "\<And>x1. (case length (results sig) of
                0 \<Rightarrow> x1\<lparr>mode := novalue\<rparr>
              | Suc 0 \<Rightarrow> x1\<lparr>mode := value', typ' := vtyp (results sig ! 0)\<rparr>
              | Suc (Suc k) \<Rightarrow> x1\<lparr>mode := value', typ' := Tuple (results sig)\<rparr>)
             \<lparr>expr := CallExpr Fun Args Ellipsis\<rparr>
           = spec_result sig (CallExpr Fun Args Ellipsis) x1"
    by (cases "results sig" rule: list.exhaust; simp add: spec_result_def split: list.splits)
  show ?thesis
    unfolding call_signature_def Let_def spread_checked_def [symmetric]
    by (simp add: res spec_arity_def split: option.splits)
qed

section \<open>Calls\<close>

subsection \<open>A single argument of tuple type\<close>

lemma spec_unpack_step_None:
  "spec_unpack_step env sig arg l ps iv None = None"
  by (simp add: spec_unpack_step_def)

lemma spec_unpack_step_Some:
  "spec_unpack_step env sig arg l ps (i, v) (Some (x, c)) =
     argument env sig i (x\<lparr>mode := value', expr := arg, typ' := vtyp v\<rparr>) (ps \<and> i = l) c"
  by (simp add: spec_unpack_step_def)

lemma fold_unpack_None:
  "fold (spec_unpack_step env sig arg l ps) ivs None = None"
  by (induction ivs) (simp_all add: spec_unpack_step_None)

lemma call_tuple_args_fold:
  "call_tuple_args env sig arg n ps i vs x c =
     fold (spec_unpack_step env sig arg (n - 1) ps) (enumerate i vs) (Some (x, c))"
proof (induction vs arbitrary: i x c)
  case Nil
  show ?case by simp
next
  case (Cons v vs)
  show ?case
  proof (cases "argument env sig i (x\<lparr>mode := value', expr := arg, typ' := vtyp v\<rparr>)
                  (ps \<and> i = n - 1) c")
    case None
    then show ?thesis by (simp add: spec_unpack_step_Some fold_unpack_None)
  next
    case (Some r)
    obtain x1 c1 where "r = (x1, c1)" by (cases r)
    with Some show ?thesis using Cons.IH [of "Suc i" x1 c1]
      by (simp add: spec_unpack_step_Some)
  qed
qed

text \<open>
  Claim C3. In a call with exactly one argument expression that evaluates to a
  valid operand of tuple type, the components of the tuple are checked in order,
  each as a positional argument at its own index, the trailing spread applying to
  the last component only, and the argument count of the arity check is the
  length of the tuple; the tuple itself is not passed to parameter 0.
\<close>

theorem call_tuple_argument:
  assumes "check_expr env x0 arg (spread_checked sig Fun Ellipsis c0) = (x1, c1)"
    and "mode x1 \<noteq> invalid"
    and "typ' x1 = Tuple t"
  shows "call_signature env sig Fun [arg] Ellipsis x0 c0 =
           (case spec_unpack env sig arg t (IsValid Ellipsis \<and> isVariadic sig) x1 c1 of
              None \<Rightarrow> None
            | Some (x2, c2) \<Rightarrow>
                Some (spec_result sig (CallExpr Fun [arg] Ellipsis) x2,
                      spec_arity sig Fun (length t) c2))"
proof -
  have "call_arguments env sig [arg] (IsValid Ellipsis \<and> isVariadic sig) x0
          (spread_checked sig Fun Ellipsis c0) =
        (case spec_unpack env sig arg t (IsValid Ellipsis \<and> isVariadic sig) x1 c1 of
           None \<Rightarrow> None
         | Some (x2, c2) \<Rightarrow> Some (length t, x2, c2))"
    using assms
    by (simp add: call_arguments_def Let_def spec_unpack_def call_tuple_args_fold
             split: option.splits)
  then show ?thesis
    by (simp add: call_signature_phases split: option.splits)
qed

text \<open>
  The call \<^verbatim>\<open>h(g())\<close>, where \<^verbatim>\<open>h\<close> has one parameter and \<^verbatim>\<open>g\<close> returns two values:
  the second component is one argument too many.
\<close>

theorem call_tuple_argument_witness:
  "check_expr ex_env (ex_x\<lparr>mode := value', expr := Ident ''h'', typ' := Sig ex_h\<rparr>)
       (CallExpr (Ident ''g'') [] 0) (spread_checked ex_h (Ident ''h'') 0 ex_c)
     = (ex_x\<lparr>mode := value', expr := CallExpr (Ident ''g'') [] 0, typ' := Tuple (results ex_g)\<rparr>, ex_c)
   \<and> errors (snd (the (call_signature ex_env ex_h (Ident ''h'') [CallExpr (Ident ''g'') [] 0] 0
        (ex_x\<lparr>mode := value', expr := Ident ''h'', typ' := Sig ex_h\<rparr>) ex_c)))
     = [Error TooManyArguments []]"
  using call_tuple_argument [of ex_env "ex_x\<lparr>mode := value', expr := Ident ''h'', typ' := Sig ex_h\<rparr>"
      "CallExpr (Ident ''g'') [] 0" ex_h "Ident ''h''" 0 ex_c
      "ex_x\<lparr>mode := value', expr := CallExpr (Ident ''g'') [] 0, typ' := Tuple (results ex_g)\<rparr>" ex_c
      "results ex_g"]
  by (simp add: ex_env_def ex_eval_def ex_x_def ex_c_def ex_h_def ex_g_def spread_checked_def
        IsValid_def NoPos_def spec_unpack_def spec_unpack_step_Some argument_def Let_def
        errorf_def spec_arity_def ex_int_def ex_string_def)

subsection \<open>A single argument that failed to evaluate\<close>

text \<open>
  Claim C5. In a call with exactly one argument expression whose evaluation
  fails, no argument is matched against a parameter (the state after the call
  is the state after the evaluation of the argument, whatever the assignment
  collaborator would do), the argument count is set to the parameter count of
  the signature, and the arity check reports nothing.
\<close>

theorem call_single_invalid_argument:
  assumes "check_expr env x0 arg (spread_checked sig Fun Ellipsis c0) = (x1, c1)"
    and "mode x1 = invalid"
  shows "call_arguments env sig [arg] (IsValid Ellipsis \<and> isVariadic sig) x0
             (spread_checked sig Fun Ellipsis c0)
           = Some (length (params sig), x1, c1)
         \<and> call_signature env sig Fun [arg] Ellipsis x0 c0
           = Some (spec_result sig (CallExpr Fun [arg] Ellipsis) x1, c1)
         \<and> call_signature (env\<lparr>check_assignment := a\<rparr>) sig Fun [arg] Ellipsis x0 c0
           = call_signature env sig Fun [arg] Ellipsis x0 c0"
proof -
  have args: "call_arguments env sig [arg] (IsValid Ellipsis \<and> isVariadic sig) x0
                (spread_checked sig Fun Ellipsis c0)
              = Some (length (params sig), x1, c1)"
    using assms by (simp add: call_arguments_def Let_def)
  have args': "call_arguments (env\<lparr>check_assignment := a\<rparr>) sig [arg]
                 (IsValid Ellipsis \<and> isVariadic sig) x0 (spread_checked sig Fun Ellipsis c0)
               = Some (length (params sig), x1, c1)"
    using assms by (simp add: call_arguments_def Let_def)
  have sg: "call_signature env sig Fun [arg] Ellipsis x0 c0
            = Some (spec_result sig (CallExpr Fun [arg] Ellipsis) x1, c1)"
    by (simp add: call_signature_phases args spec_arity_def)
  have sg': "call_signature (env\<lparr>check_assignment := a\<rparr>) sig Fun [arg] Ellipsis x0 c0
             = Some (spec_result sig (CallExpr Fun [arg] Ellipsis) x1, c1)"
    by (simp add: call_signature_phases args' spec_arity_def)
  show ?thesis using args sg sg' by simp
qed

text \<open>
  The call \<^verbatim>\<open>f(bad)\<close>, where \<^verbatim>\<open>f\<close> has two parameters and \<^verbatim>\<open>bad\<close> is undeclared: no
  diagnostic is added for the call.
\<close>

theorem call_single_invalid_argument_witness:
  "check_expr ex_env (ex_x\<lparr>mode := value', expr := Ident ''f'', typ' := Sig ex_f\<rparr>)
       (Ident ''bad'') (spread_checked ex_f (Ident ''f'') 0 ex_c)
     = (ex_x\<lparr>expr := Ident ''bad''\<rparr>, ex_c)
   \<and> mode (ex_x\<lparr>expr := Ident ''bad''\<rparr>) = invalid
   \<and> call_signature ex_env ex_f (Ident ''f'') [Ident ''bad''] 0
        (ex_x\<lparr>mode := value', expr := Ident ''f'', typ' := Sig ex_f\<rparr>) ex_c
     = Some (ex_x\<lparr>mode := novalue, expr := CallExpr (Ident ''f'') [Ident ''bad''] 0\<rparr>, ex_c)"
  using call_single_invalid_argument [of ex_env
      "ex_x\<lparr>mode := value', expr := Ident ''f'', typ' := Sig ex_f\<rparr>" "Ident ''bad''" ex_f
      "Ident ''f''" 0 ex_c "ex_x\<lparr>expr := Ident ''bad''\<rparr>" ex_c]
  by (simp add: ex_env_def ex_eval_def ex_x_def ex_c_def ex_f_def spread_checked_def
        IsValid_def NoPos_def spec_result_def)

subsection \<open>The arity check\<close>

text \<open>
  Claim C6. A function or method call on a well-formed signature evaluates its
  arguments and returns; with \<open>n\<close> the number of positional arguments considered,
  plus one when the signature is variadic, the arity check adds
  \<open>TooFewArguments\<close> to the diagnostics of the argument evaluation exactly when
  \<open>n\<close> is less than the parameter count, and adds nothing otherwise (in
  particular nothing for excess arguments); the result operand is computed in
  both cases.
\<close>

theorem call_arity_check:
  assumes "wf_sig sig"
  shows "\<exists>n x1 c1.
           call_arguments env sig Args (IsValid Ellipsis \<and> isVariadic sig) x0
               (spread_checked sig Fun Ellipsis c0)
             = Some (n, x1, c1)
           \<and> n = spec_count env sig Args x0 (spread_checked sig Fun Ellipsis c0)
           \<and> call_signature env sig Fun Args Ellipsis x0 c0
             = Some (spec_result sig (CallExpr Fun Args Ellipsis) x1,
                     if (if isVariadic sig then n + 1 else n) < length (params sig)
                     then errorf TooFewArguments [AExpr Fun] c1 else c1)"
proof -
  obtain n x1 c1 where
    args: "call_arguments env sig Args (IsValid Ellipsis \<and> isVariadic sig) x0
             (spread_checked sig Fun Ellipsis c0) = Some (n, x1, c1)"
    using call_arguments_total [OF assms] by blast
  have "n = spec_count env sig Args x0 (spread_checked sig Fun Ellipsis c0)"
    using call_arguments_count [OF args] .
  moreover have "call_signature env sig Fun Args Ellipsis x0 c0
      = Some (spec_result sig (CallExpr Fun Args Ellipsis) x1,
              if (if isVariadic sig then n + 1 else n) < length (params sig)
              then errorf TooFewArguments [AExpr Fun] c1 else c1)"
    by (simp add: call_signature_phases args spec_arity_def)
  ultimately show ?thesis using args by blast
qed

text \<open>
  The call \<^verbatim>\<open>v()\<close> of the variadic \<^verbatim>\<open>v(a int, b ...string)\<close>: no argument, counted
  as one, is less than two parameters.
\<close>

theorem call_arity_check_witness:
  "wf_sig ex_v
   \<and> call_signature ex_env ex_v (Ident ''v'') [] 0
        (ex_x\<lparr>mode := value', expr := Ident ''v'', typ' := Sig ex_v\<rparr>) ex_c
     = Some (ex_x\<lparr>mode := value', expr := CallExpr (Ident ''v'') [] 0,
                  typ' := Tuple (results ex_v)\<rparr>,
             ex_c\<lparr>errors := [Error TooFewArguments [AExpr (Ident ''v'')]]\<rparr>)"
proof -
  have wf: "wf_sig ex_v"
    by (simp add: wf_sig_def ex_v_def)
  have args: "call_arguments ex_env ex_v [] (IsValid 0 \<and> isVariadic ex_v)
                (ex_x\<lparr>mode := value', expr := Ident ''v'', typ' := Sig ex_v\<rparr>)
                (spread_checked ex_v (Ident ''v'') 0 ex_c)
              = Some (0, ex_x\<lparr>mode := value', expr := Ident ''v'', typ' := Sig ex_v\<rparr>, ex_c)"
    by (simp add: call_arguments_def spread_checked_def IsValid_def NoPos_def)
  show ?thesis
    using wf args call_arity_check [OF wf, of ex_env "[]" 0
      "ex_x\<lparr>mode := value', expr := Ident ''v'', typ' := Sig ex_v\<rparr>" "Ident ''v''" ex_c]
    by (auto simp: ex_v_def ex_x_def ex_c_def spec_result_def errorf_def)
qed

subsection \<open>A trailing spread in a call of a non-variadic signature\<close>

lemma argument_plain:
  assumes "\<not> isVariadic sig"
  shows "argument env sig i x False c = Some (spec_plain_argument env sig i x c)"
proof -
  have assign: "\<And>t. (case check_assignment env x t c of
                        (ok, x1, c1) \<Rightarrow>
                          if \<not> ok \<and> mode x1 \<noteq> invalid then
                            Some (x1, errorf ArgumentTypeMismatch [AOperand x1, AType t] c1)
                          else Some (x1, c1))
                     = Some (spec_assign env x t c)"
    by (auto simp: spec_assign_def Let_def split: prod.splits)
  show ?thesis using assms
    by (simp add: argument_def Let_def assign spec_plain_argument_def)
qed

lemma call_tuple_args_plain:
  assumes "\<not> isVariadic sig"
  shows "call_tuple_args env sig arg n False i vs x c =
           Some (fold (spec_plain_component_step env sig arg) (enumerate i vs) (x, c))"
proof (induction vs arbitrary: i x c)
  case Nil
  show ?case by simp
next
  case (Cons v vs)
  obtain x1 c1 where
    st: "spec_plain_argument env sig i (x\<lparr>mode := value', expr := arg, typ' := vtyp v\<rparr>) c
           = (x1, c1)"
    by (cases "spec_plain_argument env sig i (x\<lparr>mode := value', expr := arg, typ' := vtyp v\<rparr>) c")
  have "spec_plain_component_step env sig arg (i, v) (x, c) = (x1, c1)"
    using st by (simp add: spec_plain_component_step_def)
  then show ?case using st Cons.IH [of "Suc i" x1 c1]
    by (simp add: argument_plain [OF assms])
qed

lemma call_range_args_plain:
  assumes "\<not> isVariadic sig"
  shows "call_range_args env sig n False i args x c =
           Some (fold (spec_plain_expr_step env sig) (enumerate i args) (x, c))"
proof (induction args arbitrary: i x c)
  case Nil
  show ?case by simp
next
  case (Cons arg args)
  obtain x1 c1 where ev: "check_expr env x arg c = (x1, c1)"
    by (cases "check_expr env x arg c")
  show ?case
  proof (cases "mode x1 = invalid")
    case True
    then have "spec_plain_expr_step env sig (i, arg) (x, c) = (x1, c1)"
      using ev by (simp add: spec_plain_expr_step_def)
    then show ?thesis using ev True Cons.IH [of "Suc i" x1 c1] by simp
  next
    case False
    obtain x2 c2 where st: "spec_plain_argument env sig i x1 c1 = (x2, c2)"
      by (cases "spec_plain_argument env sig i x1 c1")
    have "spec_plain_expr_step env sig (i, arg) (x, c) = (x2, c2)"
      using ev False st by (simp add: spec_plain_expr_step_def)
    then show ?thesis using ev False st Cons.IH [of "Suc i" x2 c2]
      by (simp add: argument_plain [OF assms])
  qed
qed

lemma call_arguments_plain:
  assumes "\<not> isVariadic sig"
  shows "call_arguments env sig Args False x c = Some (spec_plain_arguments env sig Args x c)"
proof (cases "length Args = 1")
  case False
  then have "spec_plain_arguments env sig Args x c =
      (length Args, fold (spec_plain_expr_step env sig) (enumerate 0 Args) (x, c))"
    by (cases Args) (simp_all add: spec_plain_arguments_def split: list.splits)
  then show ?thesis using False
    by (simp add: call_arguments_def Let_def call_range_args_plain [OF assms])
next
  case True
  then obtain arg where Args: "Args = [arg]"
    by (cases Args) simp_all
  obtain x1 c1 where ev: "check_expr env x arg c = (x1, c1)"
    by (cases "check_expr env x arg c")
  show ?thesis
  proof (cases "mode x1 = invalid")
    case True
    then show ?thesis using ev unfolding Args
      by (simp add: call_arguments_def spec_plain_arguments_def Let_def)
  next
    case valid: False
    obtain x2 c2 where st: "spec_plain_argument env sig 0 x1 c1 = (x2, c2)"
      by (cases "spec_plain_argument env sig 0 x1 c1")
    show ?thesis
    proof (cases "typ' x1")
      case (Tuple t)
      obtain x3 c3 where
        fd: "fold (spec_plain_component_step env sig arg) (enumerate 0 t) (x1, c1) = (x3, c3)"
        by (cases "fold (spec_plain_component_step env sig arg) (enumerate 0 t) (x1, c1)")
      show ?thesis using ev valid Tuple fd unfolding Args
        by (simp add: call_arguments_def spec_plain_arguments_def Let_def
              call_tuple_args_plain [OF assms])
    qed (use ev valid st in \<open>simp_all add: Args call_arguments_def spec_plain_arguments_def
           Let_def argument_plain [OF assms]\<close>)
  qed
qed

text \<open>
  Claim C8. A call of a non-variadic signature written with a trailing spread
  reports \<open>SpreadOnNonVariadic\<close> first; from the state with that diagnostic it
  evaluates every argument expression and checks it as a plain argument, the
  spread having no effect (a single failed argument is skipped and a single
  tuple is unpacked, as in every call); then come the arity check on the count
  of these arguments and the result operand of the signature. The call without
  the spread, started in the state with the diagnostic, does the same and
  differs only in the call expression that the result records.
\<close>

theorem call_spread_on_non_variadic:
  assumes "\<not> isVariadic sig"
    and "IsValid Ellipsis"
  shows "call_signature env sig Fun Args Ellipsis x c =
           (case spec_plain_arguments env sig Args x (errorf SpreadOnNonVariadic [AExpr Fun] c) of
              (n, x1, c1) \<Rightarrow>
                Some (spec_result sig (CallExpr Fun Args Ellipsis) x1,
                      if n < length (params sig)
                      then errorf TooFewArguments [AExpr Fun] c1 else c1))
         \<and> call_signature env sig Fun Args NoPos x (errorf SpreadOnNonVariadic [AExpr Fun] c) =
           (case spec_plain_arguments env sig Args x (errorf SpreadOnNonVariadic [AExpr Fun] c) of
              (n, x1, c1) \<Rightarrow>
                Some (spec_result sig (CallExpr Fun Args NoPos) x1,
                      if n < length (params sig)
                      then errorf TooFewArguments [AExpr Fun] c1 else c1))"
proof -
  have st: "spread_checked sig Fun Ellipsis c = errorf SpreadOnNonVariadic [AExpr Fun] c"
    using assms by (simp add: spread_checked_def)
  have st': "spread_checked sig Fun NoPos (errorf SpreadOnNonVariadic [AExpr Fun] c)
             = errorf SpreadOnNonVariadic [AExpr Fun] c"
    by (simp add: spread_checked_def IsValid_def)
  obtain n x1 c1 where
    sp: "spec_plain_arguments env sig Args x (errorf SpreadOnNonVariadic [AExpr Fun] c)
           = (n, x1, c1)"
    by (cases "spec_plain_arguments env sig Args x (errorf SpreadOnNonVariadic [AExpr Fun] c)")
  have args: "call_arguments env sig Args False x (errorf SpreadOnNonVariadic [AExpr Fun] c)
                = Some (n, x1, c1)"
    using call_arguments_plain [OF assms(1)] sp by simp
  have "call_signature env sig Fun Args Ellipsis x c =
          Some (spec_result sig (CallExpr Fun Args Ellipsis) x1,
                if n < length (params sig) then errorf TooFewArguments [AExpr Fun] c1 else c1)"
    unfolding call_signature_phases st using assms(1) args by (simp add: spec_arity_def)
  moreover have "call_signature env sig Fun Args NoPos x
                   (errorf SpreadOnNonVariadic [AExpr Fun] c) =
          Some (spec_result sig (CallExpr Fun Args NoPos) x1,
                if n < length (params sig) then errorf TooFewArguments [AExpr Fun] c1 else c1)"
    unfolding call_signature_phases st' using assms(1) args by (simp add: spec_arity_def)
  ultimately show ?thesis using sp by simp
qed

text \<open>
  The call \<^verbatim>\<open>f(one, ss...)\<close> of the non-variadic \<^verbatim>\<open>f(a int, b string)\<close>: after the
  diagnostic for the spread both arguments are checked, the slice \<^verbatim>\<open>ss\<close> against
  \<^verbatim>\<open>string\<close> as a plain argument.
\<close>

theorem call_spread_on_non_variadic_witness:
  "\<not> isVariadic ex_f \<and> IsValid 7
   \<and> call_signature ex_env ex_f (Ident ''f'') [Ident ''one'', Ident ''ss''] 7
        (ex_x\<lparr>mode := value', expr := Ident ''f'', typ' := Sig ex_f\<rparr>) ex_c
     = Some (ex_x\<lparr>mode := novalue, expr := CallExpr (Ident ''f'') [Ident ''one'', Ident ''ss''] 7,
                  typ' := Slice ex_string\<rparr>,
             ex_c\<lparr>errors :=
               [Error SpreadOnNonVariadic [AExpr (Ident ''f'')],
                Error ArgumentTypeMismatch
                  [AOperand (ex_x\<lparr>mode := variable, expr := Ident ''ss'', typ' := Slice ex_string\<rparr>),
                   AType ex_string]]\<rparr>)"
proof -
  have nv: "\<not> isVariadic ex_f"
    by (simp add: ex_f_def)
  have iv: "IsValid 7"
    by (simp add: IsValid_def NoPos_def)
  have en: "enumerate 0 [Ident ''one'', Ident ''ss''] = [(0, Ident ''one''), (Suc 0, Ident ''ss'')]"
    by simp
  have sp: "spec_plain_arguments ex_env ex_f [Ident ''one'', Ident ''ss'']
        (ex_x\<lparr>mode := value', expr := Ident ''f'', typ' := Sig ex_f\<rparr>)
        (errorf SpreadOnNonVariadic [AExpr (Ident ''f'')] ex_c)
     = (2, ex_x\<lparr>mode := variable, expr := Ident ''ss'', typ' := Slice ex_string\<rparr>,
        ex_c\<lparr>errors :=
               [Error SpreadOnNonVariadic [AExpr (Ident ''f'')],
                Error ArgumentTypeMismatch
                  [AOperand (ex_x\<lparr>mode := variable, expr := Ident ''ss'', typ' := Slice ex_string\<rparr>),
                   AType ex_string]]\<rparr>)"
    by (simp add: spec_plain_arguments_def en spec_plain_expr_step_def spec_plain_argument_def
          spec_assign_def Let_def ex_env_def ex_eval_def ex_x_def ex_c_def ex_f_def errorf_def
          ex_int_def ex_string_def)
  show ?thesis
    using nv iv call_spread_on_non_variadic [OF nv iv, of ex_env "Ident ''f''"
      "[Ident ''one'', Ident ''ss'']"
      "ex_x\<lparr>mode := value', expr := Ident ''f'', typ' := Sig ex_f\<rparr>" ex_c]
    unfolding sp
    by (simp add: spec_result_def ex_f_def ex_x_def)
qed

subsection \<open>The result operand\<close>

text \<open>
  Claim C9. A call whose callee evaluates to a valid operand, not a type, with a
  well-formed signature as underlying type, returns, and its result operand has
  mode \<open>novalue\<close> when the signature has no result, mode \<open>value'\<close> and the type of
  the result when it has exactly one, and mode \<open>value'\<close> and the tuple of the
  results when it has more; this holds for every behaviour of the collaborators,
  so whatever diagnostics the arguments and the arity check produce.
\<close>

theorem call_result_operand:
  assumes "check_exprOrType env x Fun c = (x0, c0)"
    and "mode x0 \<noteq> invalid"
    and "mode x0 \<noteq> typexpr"
    and "Underlying (typ' x0) = Sig sig"
    and "wf_sig sig"
  shows "\<exists>x1 c1.
           call env x Fun Args Ellipsis c = Some (x1, c1)
           \<and> expr x1 = CallExpr Fun Args Ellipsis
           \<and> (case results sig of
                [] \<Rightarrow> mode x1 = novalue
              | [r] \<Rightarrow> mode x1 = value' \<and> typ' x1 = vtyp r
              | r # r2 # rs \<Rightarrow> mode x1 = value' \<and> typ' x1 = Tuple (results sig))"
proof -
  obtain n x2 c2 where
    args: "call_arguments env sig Args (IsValid Ellipsis \<and> isVariadic sig) x0
             (spread_checked sig Fun Ellipsis c0) = Some (n, x2, c2)"
    using call_arguments_total [OF assms(5)] by blast
  have "call env x Fun Args Ellipsis c = call_signature env sig Fun Args Ellipsis x0 c0"
    using assms(1-4) by (simp add: call_def Let_def)
  then have "call env x Fun Args Ellipsis c
        = Some (spec_result sig (CallExpr Fun Args Ellipsis) x2, spec_arity sig Fun n c2)"
    using args by (simp add: call_signature_phases)
  moreover have "expr (spec_result sig (CallExpr Fun Args Ellipsis) x2) = CallExpr Fun Args Ellipsis"
    by (simp add: spec_result_def split: list.splits)
  moreover have "case results sig of
                [] \<Rightarrow> mode (spec_result sig (CallExpr Fun Args Ellipsis) x2) = novalue
              | [r] \<Rightarrow> mode (spec_result sig (CallExpr Fun Args Ellipsis) x2) = value'
                    \<and> typ' (spec_result sig (CallExpr Fun Args Ellipsis) x2) = vtyp r
              | r # r2 # rs \<Rightarrow> mode (spec_result sig (CallExpr Fun Args Ellipsis) x2) = value'
                    \<and> typ' (spec_result sig (CallExpr Fun Args Ellipsis) x2) = Tuple (results sig)"
    by (simp add: spec_result_def split: list.splits)
  ultimately show ?thesis by blast
qed

text \<open>
  The call \<^verbatim>\<open>h(s)\<close> of \<^verbatim>\<open>h(a int) int\<close> with a string: the argument is reported, and
  the result is a value of type \<^verbatim>\<open>int\<close>.
\<close>

theorem call_result_operand_witness:
  "check_exprOrType ex_env ex_x (Ident ''h'') ex_c
     = (ex_x\<lparr>mode := value', expr := Ident ''h'', typ' := Sig ex_h\<rparr>, ex_c)
   \<and> Underlying (Sig ex_h) = Sig ex_h
   \<and> wf_sig ex_h
   \<and> mode (fst (the (call ex_env ex_x (Ident ''h'') [Ident ''s''] 0 ex_c))) = value'
   \<and> typ' (fst (the (call ex_env ex_x (Ident ''h'') [Ident ''s''] 0 ex_c))) = ex_int
   \<and> errors (snd (the (call ex_env ex_x (Ident ''h'') [Ident ''s''] 0 ex_c))) \<noteq> []"
proof -
  have ev: "check_exprOrType ex_env ex_x (Ident ''h'') ex_c
     = (ex_x\<lparr>mode := value', expr := Ident ''h'', typ' := Sig ex_h\<rparr>, ex_c)"
    by (simp add: ex_env_def ex_eval_def)
  have wf: "wf_sig ex_h"
    by (simp add: wf_sig_def ex_h_def)
  have errs: "errors (snd (the (call ex_env ex_x (Ident ''h'') [Ident ''s''] 0 ex_c))) \<noteq> []"
    by (simp add: call_def call_signature_def call_arguments_def argument_def Let_def ex_env_def
          ex_eval_def ex_x_def ex_c_def ex_h_def IsValid_def NoPos_def errorf_def
          ex_int_def ex_string_def)
  show ?thesis
    using ev wf errs call_result_operand [OF ev _ _ _ wf, of "[Ident ''s'']" 0]
    by (auto simp: ex_h_def)
qed

section \<open>The argument matcher\<close>

text \<open>
  Claim C7. With \<open>n\<close> the parameter count: against a variadic signature whose
  last parameter has the slice type \<open>Slice elt\<close>, an argument that is not a spread
  tail at position \<open>n - 1\<close> or later is assigned to the element type \<open>elt\<close>, and a
  failed assignment that leaves the operand valid reports
  \<open>ArgumentTypeMismatch\<close>; a spread tail must stand at position \<open>n - 1\<close>
  (\<open>SpreadPositionMismatch\<close> otherwise), must have a slice type
  (\<open>SpreadTypeMismatch\<close> otherwise), and is then assigned as a whole to the
  declared type \<open>Slice elt\<close>. Against a non-variadic signature, a position \<open>n\<close> or
  later reports \<open>TooManyArguments\<close> and nothing else is done. Every other
  argument is assigned to the declared type of its parameter.
\<close>

theorem argument_matcher:
  assumes "isVariadic sig \<Longrightarrow> params sig \<noteq> [] \<and> vtyp (last (params sig)) = Slice elt"
  shows "argument env sig i x passSlice c =
           (if isVariadic sig then
              (if passSlice then
                 (if i \<noteq> length (params sig) - 1 then
                    Some (x, errorf SpreadPositionMismatch [] c)
                  else if \<not> isSlice (typ' x) then
                    Some (x, errorf SpreadTypeMismatch [AOperand x, AType (Slice elt)] c)
                  else Some (spec_assign env x (Slice elt) c))
               else if length (params sig) - 1 \<le> i then Some (spec_assign env x elt c)
               else Some (spec_assign env x (vtyp (params sig ! i)) c))
            else if length (params sig) \<le> i then
              Some (x, errorf TooManyArguments [] c)
            else if passSlice then
              (if i \<noteq> length (params sig) - 1 then
                 Some (x, errorf SpreadPositionMismatch [] c)
               else if \<not> isSlice (typ' x) then
                 Some (x, errorf SpreadTypeMismatch [AOperand x, AType (vtyp (params sig ! i))] c)
               else Some (spec_assign env x (vtyp (params sig ! i)) c))
            else Some (spec_assign env x (vtyp (params sig ! i)) c))"
proof -
  have assign: "\<And>t. (case check_assignment env x t c of
                        (ok, x1, c1) \<Rightarrow>
                          if \<not> ok \<and> mode x1 \<noteq> invalid then
                            Some (x1, errorf ArgumentTypeMismatch [AOperand x1, AType t] c1)
                          else Some (x1, c1))
                     = Some (spec_assign env x t c)"
    by (auto simp: spec_assign_def Let_def split: prod.splits)
  show ?thesis
  proof (cases "isVariadic sig")
    case False
    then show ?thesis
      by (simp add: argument_def Let_def assign not_less)
  next
    case True
    with assms have ne: "params sig \<noteq> []" and elt: "vtyp (last (params sig)) = Slice elt"
      by simp_all
    have lastn: "params sig ! (length (params sig) - 1) = last (params sig)"
      using ne by (simp add: last_conv_nth)
    have pos: "0 < length (params sig)"
      using ne by simp
    show ?thesis
    proof (cases "i < length (params sig)")
      case lt: True
      show ?thesis
      proof (cases "i = length (params sig) - 1")
        case True
        then show ?thesis using lt \<open>isVariadic sig\<close> elt lastn
          by (simp add: argument_def Let_def assign)
      next
        case False
        then have "\<not> length (params sig) - 1 \<le> i" using lt by arith
        then show ?thesis using lt \<open>isVariadic sig\<close> False
          by (simp add: argument_def Let_def assign)
      qed
    next
      case ge: False
      then have "length (params sig) - 1 \<le> i" by arith
      then show ?thesis using ge \<open>isVariadic sig\<close> elt lastn ne
        by (simp add: argument_def Let_def assign)
    qed
  qed
qed

text \<open>
  The calls \<^verbatim>\<open>v(one, s, s)\<close> and \<^verbatim>\<open>v(one, ss)\<close> of \<^verbatim>\<open>v(a int, b ...string)\<close> at their
  last argument: the string is accepted, the slice without spread is not.
\<close>

theorem argument_matcher_witness:
  "isVariadic ex_v \<and> params ex_v \<noteq> [] \<and> vtyp (last (params ex_v)) = Slice ex_string
   \<and> argument ex_env ex_v 2 (ex_x\<lparr>mode := variable, expr := Ident ''s'', typ' := ex_string\<rparr>)
        False ex_c
     = Some (ex_x\<lparr>mode := variable, expr := Ident ''s'', typ' := ex_string\<rparr>, ex_c)
   \<and> argument ex_env ex_v 1 (ex_x\<lparr>mode := variable, expr := Ident ''ss'', typ' := Slice ex_string\<rparr>)
        False ex_c
     = Some (ex_x\<lparr>mode := variable, expr := Ident ''ss'', typ' := Slice ex_string\<rparr>,
             ex_c\<lparr>errors :=
               [Error ArgumentTypeMismatch
                  [AOperand (ex_x\<lparr>mode := variable, expr := Ident ''ss'', typ' := Slice ex_string\<rparr>),
                   AType ex_string]]\<rparr>)"
proof -
  have h: "isVariadic ex_v \<Longrightarrow> params ex_v \<noteq> [] \<and> vtyp (last (params ex_v)) = Slice ex_string"
    by (simp add: ex_v_def)
  show ?thesis
    using argument_matcher [OF h, of ex_env 2
        "ex_x\<lparr>mode := variable, expr := Ident ''s'', typ' := ex_string\<rparr>" False ex_c]
      argument_matcher [OF h, of ex_env 1
        "ex_x\<lparr>mode := variable, expr := Ident ''ss'', typ' := Slice ex_string\<rparr>" False ex_c]
    by (simp add: ex_v_def spec_assign_def Let_def ex_env_def ex_x_def ex_c_def errorf_def
          ex_string_def)
qed

section \<open>Selectors\<close>

subsection \<open>Package-qualified identifiers\<close>

text \<open>
  Claim C2, as the code has it. When the base is an identifier bound to a
  package, a name that is missing from the package's scope is reported as
  \<open>UndeclaredPackageMember\<close>, whether or not the name is exported, and a name
  that is in the scope but not exported is reported as
  \<open>UnexportedPackageMember\<close>; in both cases the selector returns an invalid
  operand, after recording the package for the base identifier.
\<close>

theorem selector_package_member_error:
  assumes "selector_package env X = Some (ident, pkg, scope)"
    and "case map_of scope sel of None \<Rightarrow> True | Some exp \<Rightarrow> \<not> IsExported exp"
  shows "selector env x X sel c =
           Some (x\<lparr>mode := invalid, expr := SelectorExpr X sel\<rparr>,
                 errorf (case map_of scope sel of
                           None \<Rightarrow> UndeclaredPackageMember
                         | Some exp \<Rightarrow> UnexportedPackageMember)
                   [AStr sel, AStr ident] (recordObject ident (Plain pkg) c))"
  using assms
  by (simp add: selector_def Let_def selector_Error_def split: option.splits)

text \<open>The selector \<^verbatim>\<open>fmt.hidden\<close>: the member is in the scope of \<^verbatim>\<open>fmt\<close>, unexported.\<close>

theorem selector_package_member_error_witness:
  "selector_package ex_env (Ident ''fmt'') = Some (''fmt'', ex_fmt,
       [(''Println'', FuncObj ''Println'' (Sig ex_h)), (''hidden'', TypeNameObj ''hidden'' ex_T)])
   \<and> selector ex_env ex_x (Ident ''fmt'') ''hidden'' ex_c =
       Some (ex_x\<lparr>expr := SelectorExpr (Ident ''fmt'') ''hidden''\<rparr>,
             \<lparr>errors = [Error UnexportedPackageMember [AStr ''hidden'', AStr ''fmt'']],
              objects = [(''fmt'', Plain ex_fmt)]\<rparr>)"
proof -
  have p: "selector_package ex_env (Ident ''fmt'') = Some (''fmt'', ex_fmt,
       [(''Println'', FuncObj ''Println'' (Sig ex_h)), (''hidden'', TypeNameObj ''hidden'' ex_T)])"
    by (simp add: selector_package_def ex_env_def ex_fmt_def)
  have u: "case map_of [(''Println'', FuncObj ''Println'' (Sig ex_h)),
                        (''hidden'', TypeNameObj ''hidden'' ex_T)] ''hidden'' of
             None \<Rightarrow> True | Some exp \<Rightarrow> \<not> IsExported exp"
    by (simp add: IsExported_def)
  show ?thesis
    using p selector_package_member_error [OF p u, of ex_x ex_c]
    by (simp add: ex_x_def ex_c_def errorf_def recordObject_def)
qed

text \<open>
  The claim as stated fails on \<^verbatim>\<open>fmt.missing\<close>: the name is unexported and not in
  the scope of \<^verbatim>\<open>fmt\<close>, and the diagnostic is \<open>UndeclaredPackageMember\<close>.
\<close>

theorem selector_unexported_missing_counterexample:
  "\<not> IsExported (FuncObj ''missing'' (Sig ex_h))
   \<and> selector ex_env ex_x (Ident ''fmt'') ''missing'' ex_c =
       Some (ex_x\<lparr>expr := SelectorExpr (Ident ''fmt'') ''missing''\<rparr>,
             \<lparr>errors = [Error UndeclaredPackageMember [AStr ''missing'', AStr ''fmt'']],
              objects = [(''fmt'', Plain ex_fmt)]\<rparr>)
   \<and> Error UnexportedPackageMember [AStr ''missing'', AStr ''fmt'']
       \<notin> set (errors (snd (the (selector ex_env ex_x (Ident ''fmt'') ''missing'' ex_c))))"
  by (simp add: selector_def selector_package_def selector_Error_def Let_def ex_env_def
        ex_fmt_def ex_x_def ex_c_def errorf_def recordObject_def IsExported_def)

subsection \<open>Method expressions\<close>

text \<open>
  Claim C1, as the code has it. For a selector whose base is a type expression
  and whose member is a method with a pointer-typed receiver, the resolver
  reports \<open>NotInMethodSet\<close> and returns an invalid operand exactly when reaching
  the member required no indirection; when the lookup path included an
  indirection, the method expression is formed: a value whose type is the
  method's signature with the base type prepended as first parameter.
\<close>

theorem selector_method_expression:
  assumes "selector_package env X = None"
    and "check_exprOrType env x X c = (x0, c0)"
    and "mode x0 = typexpr"
    and "LookupFieldOrMethod env (typ' x0) sel = (Some (FuncObj mn (Sig msig)), index, indirect)"
    and "recv msig = Some r"
    and "vtyp r = Pointer b"
  shows "selector env x X sel c =
           (if \<not> indirect then
              Some (x0\<lparr>mode := invalid, expr := SelectorExpr X sel\<rparr>,
                    invalidOp NotInMethodSet [AStr sel, AType (typ' x0)]
                      (recordObject sel
                         (LookupResult (typ' x0) (FuncObj mn (Sig msig)) index indirect) c0))
            else
              Some (x0\<lparr>mode := value', expr := SelectorExpr X sel,
                       typ' := Sig (Signature None (Var [] (typ' x0) # params msig)
                                      (results msig) (isVariadic msig))\<rparr>,
                    recordObject sel
                      (LookupResult (typ' x0) (FuncObj mn (Sig msig)) index indirect) c0))"
  using assms
  by (simp add: selector_def Let_def selector_Error_def ptrRecv_def)

text \<open>
  The method expressions \<^verbatim>\<open>T.M\<close> and, with \<open>OtherExpr 1\<close> for the pointer type, the
  one on the pointer to \<^verbatim>\<open>T\<close>: the first is not in the method set of \<^verbatim>\<open>T\<close>.
\<close>

theorem selector_method_expression_witness:
  "selector_package ex_env (Ident ''T'') = None
   \<and> check_exprOrType ex_env ex_x (Ident ''T'') ex_c
       = (ex_x\<lparr>mode := typexpr, expr := Ident ''T'', typ' := ex_T\<rparr>, ex_c)
   \<and> ex_lookup ex_T ''M'' = (Some ex_M, Some [0], False)
   \<and> selector ex_env ex_x (Ident ''T'') ''M'' ex_c =
       Some (ex_x\<lparr>mode := invalid, expr := SelectorExpr (Ident ''T'') ''M'', typ' := ex_T\<rparr>,
             \<lparr>errors = [Error NotInMethodSet [AStr ''M'', AType ex_T]],
              objects = [(''M'', LookupResult ex_T ex_M (Some [0]) False)]\<rparr>)"
proof -
  have p: "selector_package ex_env (Ident ''T'') = None"
    by (simp add: selector_package_def ex_env_def)
  have ev: "check_exprOrType ex_env ex_x (Ident ''T'') ex_c
       = (ex_x\<lparr>mode := typexpr, expr := Ident ''T'', typ' := ex_T\<rparr>, ex_c)"
    by (simp add: ex_env_def ex_eval_def)
  have lk: "LookupFieldOrMethod ex_env (typ' (ex_x\<lparr>mode := typexpr, expr := Ident ''T'', typ' := ex_T\<rparr>)) ''M''
       = (Some (FuncObj ''M'' (Sig (Signature (Some (Var ''r'' (Pointer ex_T))) [Var ''a'' ex_int] [] False))),
          Some [0], False)"
    by (simp add: ex_env_def ex_lookup_def ex_M_def ex_T_def)
  show ?thesis
    using p ev selector_method_expression [OF p ev _ lk, of "Var ''r'' (Pointer ex_T)" ex_T]
    by (simp add: ex_lookup_def ex_M_def ex_x_def ex_c_def invalidOp_def errorf_def
          recordObject_def)
qed

text \<open>
  The claim as stated fails on the method expression on the pointer to \<^verbatim>\<open>T\<close>:
  reaching \<^verbatim>\<open>M\<close> required an indirection, its receiver is pointer-typed, and the
  method expression is formed, with no diagnostic.
\<close>

theorem selector_method_expression_counterexample:
  "ex_lookup (Pointer ex_T) ''M'' = (Some ex_M, Some [0], True)
   \<and> ptrRecv ex_M = Some True
   \<and> selector ex_env ex_x (OtherExpr 1) ''M'' ex_c =
       Some (ex_x\<lparr>mode := value', expr := SelectorExpr (OtherExpr 1) ''M'',
                  typ' := Sig (Signature None [Var [] (Pointer ex_T), Var ''a'' ex_int] [] False)\<rparr>,
             \<lparr>errors = [],
              objects = [(''M'', LookupResult (Pointer ex_T) ex_M (Some [0]) True)]\<rparr>)"
  by (simp add: selector_def selector_package_def selector_Error_def Let_def ex_env_def
        ex_eval_def ex_lookup_def ex_M_def ex_x_def ex_c_def recordObject_def ptrRecv_def)

subsection \<open>Ordinary selectors\<close>

text \<open>
  Claim C4. For a selector whose base is a valid operand, not a type, and whose
  member is a method with a pointer-typed receiver: when the lookup path
  included no indirection and the base is not a variable, the resolver reports
  \<open>NotInMethodSet\<close> and returns an invalid operand; when the base is a variable
  or the path included an indirection, the result is a value with the method's
  function type.
\<close>

theorem selector_pointer_method:
  assumes "selector_package env X = None"
    and "check_exprOrType env x X c = (x0, c0)"
    and "mode x0 \<noteq> invalid"
    and "mode x0 \<noteq> typexpr"
    and "LookupFieldOrMethod env (typ' x0) sel = (Some (FuncObj mn (Sig msig)), index, indirect)"
    and "recv msig = Some r"
    and "vtyp r = Pointer b"
  shows "selector env x X sel c =
           (if \<not> indirect \<and> mode x0 \<noteq> variable then
              Some (x0\<lparr>mode := invalid, expr := SelectorExpr X sel\<rparr>,
                    invalidOp NotInMethodSet [AStr sel, AOperand x0]
                      (recordObject sel
                         (LookupResult (typ' x0) (FuncObj mn (Sig msig)) index indirect) c0))
            else
              Some (x0\<lparr>mode := value', expr := SelectorExpr X sel, typ' := Sig msig\<rparr>,
                    recordObject sel
                      (LookupResult (typ' x0) (FuncObj mn (Sig msig)) index indirect) c0))"
  using assms
  by (simp add: selector_def Let_def selector_Error_def ptrRecv_def)

text \<open>
  The selector \<^verbatim>\<open>tv().M\<close> on the result of a call, a value of type \<^verbatim>\<open>T\<close> that is not
  addressable: \<^verbatim>\<open>M\<close> is not in its method set.
\<close>

theorem selector_pointer_method_witness:
  "selector_package ex_env (CallExpr (Ident ''tv'') [] 0) = None
   \<and> check_exprOrType ex_env ex_x (CallExpr (Ident ''tv'') [] 0) ex_c
       = (ex_x\<lparr>mode := value', expr := CallExpr (Ident ''tv'') [] 0, typ' := ex_T\<rparr>, ex_c)
   \<and> ex_lookup ex_T ''M'' = (Some ex_M, Some [0], False)
   \<and> mode (fst (the (selector ex_env ex_x (CallExpr (Ident ''tv'') [] 0) ''M'' ex_c))) = invalid
   \<and> errors (snd (the (selector ex_env ex_x (CallExpr (Ident ''tv'') [] 0) ''M'' ex_c)))
       = [Error NotInMethodSet [AStr ''M'',
            AOperand (ex_x\<lparr>mode := value', expr := CallExpr (Ident ''tv'') [] 0, typ' := ex_T\<rparr>)]]"
proof -
  have p: "selector_package ex_env (CallExpr (Ident ''tv'') [] 0) = None"
    by (simp add: selector_package_def)
  have ev: "check_exprOrType ex_env ex_x (CallExpr (Ident ''tv'') [] 0) ex_c
       = (ex_x\<lparr>mode := value', expr := CallExpr (Ident ''tv'') [] 0, typ' := ex_T\<rparr>, ex_c)"
    by (simp add: ex_env_def ex_eval_def)
  have lk: "LookupFieldOrMethod ex_env
              (typ' (ex_x\<lparr>mode := value', expr := CallExpr (Ident ''tv'') [] 0, typ' := ex_T\<rparr>)) ''M''
       = (Some (FuncObj ''M'' (Sig (Signature (Some (Var ''r'' (Pointer ex_T))) [Var ''a'' ex_int] [] False))),
          Some [0], False)"
    by (simp add: ex_env_def ex_lookup_def ex_M_def ex_T_def)
  show ?thesis
    using p ev selector_pointer_method [OF p ev _ _ lk, of "Var ''r'' (Pointer ex_T)" ex_T]
    by (simp add: ex_lookup_def ex_M_def ex_x_def ex_c_def invalidOp_def errorf_def
          recordObject_def)
qed

text \<open>
  Claim C10. For a selector whose base is a valid operand, not a type, and whose
  member is a field, the result has mode \<open>variable\<close> and the field's type,
  whatever the mode of the base.
\<close>

theorem selector_field:
  assumes "selector_package env X = None"
    and "check_exprOrType env x X c = (x0, c0)"
    and "mode x0 \<noteq> invalid"
    and "mode x0 \<noteq> typexpr"
    and "LookupFieldOrMethod env (typ' x0) sel = (Some (VarObj v), index, indirect)"
  shows "selector env x X sel c =
           Some (x0\<lparr>mode := variable, expr := SelectorExpr X sel, typ' := vtyp v\<rparr>,
                 recordObject sel (LookupResult (typ' x0) (VarObj v) index indirect) c0)"
  using assms
  by (simp add: selector_def Let_def)

text \<open>
  The selector \<^verbatim>\<open>tv().X\<close> on the result of a call, which is not addressable: the
  field is classified as a variable.
\<close>

theorem selector_field_witness:
  "selector_package ex_env (CallExpr (Ident ''tv'') [] 0) = None
   \<and> check_exprOrType ex_env ex_x (CallExpr (Ident ''tv'') [] 0) ex_c
       = (ex_x\<lparr>mode := value', expr := CallExpr (Ident ''tv'') [] 0, typ' := ex_T\<rparr>, ex_c)
   \<and> selector ex_env ex_x (CallExpr (Ident ''tv'') [] 0) ''X'' ex_c =
       Some (ex_x\<lparr>mode := variable, expr := SelectorExpr (CallExpr (Ident ''tv'') [] 0) ''X'',
                  typ' := ex_int\<rparr>,
             \<lparr>errors = [],
              objects = [(''X'', LookupResult ex_T (VarObj (Var ''X'' ex_int)) (Some [0]) False)]\<rparr>)"
proof -
  have p: "selector_package ex_env (CallExpr (Ident ''tv'') [] 0) = None"
    by (simp add: selector_package_def)
  have ev: "check_exprOrType ex_env ex_x (CallExpr (Ident ''tv'') [] 0) ex_c
       = (ex_x\<lparr>mode := value', expr := CallExpr (Ident ''tv'') [] 0, typ' := ex_T\<rparr>, ex_c)"
    by (simp add: ex_env_def ex_eval_def)
  have lk: "LookupFieldOrMethod ex_env
              (typ' (ex_x\<lparr>mode := value', expr := CallExpr (Ident ''tv'') [] 0, typ' := ex_T\<rparr>)) ''X''
       = (Some (VarObj (Var ''X'' ex_int)), Some [0], False)"
    by (simp add: ex_env_def ex_lookup_def ex_T_def)
  show ?thesis
    using p ev selector_field [OF p ev _ _ lk]
    by (simp add: ex_x_def ex_c_def recordObject_def)
qed

end
